theory Spec2Isabelle
  imports Complex_Main "HOL-Library.Stream"
begin

section \<open>Numbers\<close>

text \<open>
  The engine computes with \<^verbatim>\<open>double\<close>. The specification's data model puts intervals
  and vectors over the reals, with the two infinite bounds of \<^verbatim>\<open>Interval::empty\<close> and
  \<^verbatim>\<open>Interval::universe\<close>. Vector components are therefore reals here, interval bounds
  are extended reals, and rounding is not modelled. Where the code applies an operation
  that has no real result (the square root of a negative number, a division by zero) the
  C++ value is NaN or an infinity; the model makes that outcome explicit (as \<open>None\<close>, or
  as the value \<open>NaN\<close> of the samplers) instead of using HOL's totalised \<open>sqrt\<close> and
  \<open>/\<close>.
\<close>

datatype ext = MInf | Fin real | PInf

instantiation ext :: linorder
begin

fun less_eq_ext :: "ext \<Rightarrow> ext \<Rightarrow> bool" where
  "less_eq_ext MInf _ = True"
| "less_eq_ext _ PInf = True"
| "less_eq_ext (Fin a) (Fin b) = (a \<le> b)"
| "less_eq_ext (Fin _) MInf = False"
| "less_eq_ext PInf MInf = False"
| "less_eq_ext PInf (Fin _) = False"

definition less_ext :: "ext \<Rightarrow> ext \<Rightarrow> bool" where
  "less_ext a b = (a \<le> b \<and> \<not> b \<le> a)"

instance
proof
  fix a b c :: ext
  show "(a < b) = (a \<le> b \<and> \<not> b \<le> a)" by (simp add: less_ext_def)
  show "a \<le> a" by (cases a) simp_all
  show "a \<le> b \<Longrightarrow> b \<le> c \<Longrightarrow> a \<le> c" by (cases a; cases b; cases c) simp_all
  show "a \<le> b \<Longrightarrow> b \<le> a \<Longrightarrow> a = b" by (cases a; cases b) simp_all
  show "a \<le> b \<or> b \<le> a" by (cases a; cases b) auto
qed

end

text \<open>
  \<^verbatim>\<open>std::max(a,b)\<close> is \<^verbatim>\<open>(a<b)?b:a\<close> and \<^verbatim>\<open>std::min(a,b)\<close> is \<^verbatim>\<open>(b<a)?b:a\<close>.
\<close>

definition std_max :: "ext \<Rightarrow> ext \<Rightarrow> ext" where
  "std_max a b = (if a < b then b else a)"

definition std_min :: "ext \<Rightarrow> ext \<Rightarrow> ext" where
  "std_min a b = (if b < a then b else a)"

section \<open>Interval\<close>

record Interval =
  minI :: ext
  maxI :: ext

definition clamp :: "Interval \<Rightarrow> ext \<Rightarrow> ext" where
  "clamp i a = (if a < minI i then minI i else if maxI i < a then maxI i else a)"

definition contain :: "Interval \<Rightarrow> ext \<Rightarrow> bool" where
  "contain i a = (minI i \<le> a \<and> a \<le> maxI i)"

definition isEmpty :: "Interval \<Rightarrow> bool" where
  "isEmpty i = (maxI i < minI i)"

text \<open>
  The two mutating members assign \<^verbatim>\<open>min\<close> first and \<^verbatim>\<open>max\<close> second, each from its own
  old value and the argument's; the value returned is the updated receiver.
\<close>

definition intersect :: "Interval \<Rightarrow> Interval \<Rightarrow> Interval" where
  "intersect i a =
     (let i1 = i\<lparr>minI := std_max (minI i) (minI a)\<rparr>
      in i1\<lparr>maxI := std_min (maxI i1) (maxI a)\<rparr>)"

definition Interval_unite :: "Interval \<Rightarrow> Interval \<Rightarrow> Interval" where
  "Interval_unite i a =
     (let i1 = i\<lparr>minI := std_min (minI i) (minI a)\<rparr>
      in i1\<lparr>maxI := std_max (maxI i1) (maxI a)\<rparr>)"

definition Interval_universe :: Interval where
  "Interval_universe = \<lparr>minI = MInf, maxI = PInf\<rparr>"

definition Interval_empty :: Interval where
  "Interval_empty = \<lparr>minI = PInf, maxI = MInf\<rparr>"

text \<open>The free function \<^verbatim>\<open>unite(const Interval&, const Interval&)\<close>.\<close>

definition unite :: "Interval \<Rightarrow> Interval \<Rightarrow> Interval" where
  "unite a b = \<lparr>minI = std_min (minI a) (minI b), maxI = std_max (maxI a) (maxI b)\<rparr>"

section \<open>Vector\<close>

record Vector =
  x :: real
  y :: real
  z :: real

text \<open>
  The operators of the source, in its order: \<^verbatim>\<open>a+b\<close>, \<^verbatim>\<open>a-b\<close>, \<^verbatim>\<open>v*a\<close> (scaling),
  \<^verbatim>\<open>a*b\<close> (dot product), \<^verbatim>\<open>a&b\<close> (cross product), \<^verbatim>\<open>v/a\<close>, \<^verbatim>\<open>-v\<close>.
\<close>

definition vadd :: "Vector \<Rightarrow> Vector \<Rightarrow> Vector" where
  "vadd a b = \<lparr>x = x a + x b, y = y a + y b, z = z a + z b\<rparr>"

definition vsub :: "Vector \<Rightarrow> Vector \<Rightarrow> Vector" where
  "vsub a b = \<lparr>x = x a - x b, y = y a - y b, z = z a - z b\<rparr>"

definition vscale :: "Vector \<Rightarrow> real \<Rightarrow> Vector" where
  "vscale v a = \<lparr>x = x v * a, y = y v * a, z = z v * a\<rparr>"

definition dot :: "Vector \<Rightarrow> Vector \<Rightarrow> real" where
  "dot a b = x a * x b + y a * y b + z a * z b"

definition cross :: "Vector \<Rightarrow> Vector \<Rightarrow> Vector" where
  "cross a b = \<lparr>x = y a * z b - z a * y b, y = z a * x b - x a * z b, z = x a * y b - y a * x b\<rparr>"

text \<open>
  Division by zero has no real result (the C++ quotient is NaN for \<open>0/0\<close> and an
  infinity otherwise): \<open>None\<close>.
\<close>

definition vdiv :: "Vector \<Rightarrow> real \<Rightarrow> Vector option" where
  "vdiv v a = (if a = 0 then None else Some \<lparr>x = x v / a, y = y v / a, z = z v / a\<rparr>)"

definition vneg :: "Vector \<Rightarrow> Vector" where
  "vneg v = \<lparr>x = - x v, y = - y v, z = - z v\<rparr>"

definition normSq :: "Vector \<Rightarrow> real" where
  "normSq v = x v * x v + y v * y v + z v * z v"

definition norm_v :: "Vector \<Rightarrow> real" where
  "norm_v v = sqrt (normSq v)"

definition unit :: "Vector \<Rightarrow> Vector option" where
  "unit v = vdiv v (norm_v v)"

text \<open>\<^verbatim>\<open>rotate(v, axis, a)\<close> and \<^verbatim>\<open>rotate(v, origin, axis, a)\<close>, the free functions.\<close>

definition rotate_v :: "Vector \<Rightarrow> Vector \<Rightarrow> real \<Rightarrow> Vector" where
  "rotate_v v axis a =
     (let c = cos a
      in vadd (vadd (vscale v c) (vscale (vscale axis (1 - c)) (dot v axis)))
              (vscale (cross v axis) (sin a)))"

definition rotate_about :: "Vector \<Rightarrow> Vector \<Rightarrow> Vector \<Rightarrow> real \<Rightarrow> Vector" where
  "rotate_about v origin axis a = vadd (rotate_v (vsub v origin) axis a) origin"


text \<open>\<^verbatim>\<open>Vector::unitize\<close> divides the receiver by its norm and returns it.\<close>

definition unitize :: "Vector \<Rightarrow> Vector option" where
  "unitize v = vdiv v (norm_v v)"

subsection \<open>The mutating members, on a store\<close>

text \<open>
  \<^verbatim>\<open>Vector::rotate\<close> updates its receiver in place and takes \<^verbatim>\<open>origin\<close> and \<^verbatim>\<open>axis\<close> by
  reference, so what it computes depends on whether an argument is the receiver itself.
  Vector objects live in a store, arguments are addresses. \<^verbatim>\<open>operator-=\<close> updates the
  three components of its left operand one after the other, reading the right operand
  from the store each time. The angle is a \<^verbatim>\<open>double\<close> object of its own.
\<close>

type_synonym addr = nat
type_synonym store = "addr \<Rightarrow> Vector"

definition minus_assign :: "store \<Rightarrow> addr \<Rightarrow> addr \<Rightarrow> store" where
  "minus_assign s a b =
     (let s1 = s(a := (s a)\<lparr>x := x (s a) - x (s b)\<rparr>);
          s2 = s1(a := (s1 a)\<lparr>y := y (s1 a) - y (s1 b)\<rparr>)
      in s2(a := (s2 a)\<lparr>z := z (s2 a) - z (s2 b)\<rparr>))"

text \<open>
  \<^verbatim>\<open>Vector::rotate(axis, a)\<close>: the right-hand side is evaluated from the store, then
  assigned to the receiver.
\<close>

definition Vector_rotate :: "store \<Rightarrow> addr \<Rightarrow> addr \<Rightarrow> real \<Rightarrow> store" where
  "Vector_rotate s this axis a =
     (let c = cos a
      in s(this := vadd (vadd (vscale (s this) c) (vscale (vscale (s axis) (1 - c)) (dot (s this) (s axis))))
                        (vscale (cross (s this) (s axis)) (sin a))))"

text \<open>
  \<^verbatim>\<open>Vector::rotate(origin, axis, a)\<close>: \<^verbatim>\<open>*this-=origin\<close>, then the member
  \<^verbatim>\<open>rotate(axis,a)\<close> on the receiver (inside the class the unqualified name is the
  member), then \<^verbatim>\<open>+origin\<close> assigned to the receiver.
\<close>

definition Vector_rotate_about :: "store \<Rightarrow> addr \<Rightarrow> addr \<Rightarrow> addr \<Rightarrow> real \<Rightarrow> store" where
  "Vector_rotate_about s this origin axis a =
     (let s1 = minus_assign s this origin;
          s2 = Vector_rotate s1 this axis a
      in s2(this := vadd (s2 this) (s2 origin)))"

section \<open>Materials\<close>

text \<open>
  \<^verbatim>\<open>possibility(theoretic, real)\<close> and \<^verbatim>\<open>generate(normal, theoretic)\<close>; the second
  parameter of the former is called \<open>actual\<close> here. \<^verbatim>\<open>Material\<close> is abstract; \<^verbatim>\<open>Mirror\<close>
  is its one concrete class.
\<close>

datatype Material = Mirror



section \<open>Axis-aligned box\<close>

record Aabb =
  xI :: Interval
  yI :: Interval
  zI :: Interval

text \<open>The constructors from two corners and from two boxes.\<close>

definition Aabb_corners :: "Vector \<Rightarrow> Vector \<Rightarrow> Aabb" where
  "Aabb_corners a b =
     \<lparr>xI = \<lparr>minI = std_min (Fin (x a)) (Fin (x b)), maxI = std_max (Fin (x a)) (Fin (x b))\<rparr>,
      yI = \<lparr>minI = std_min (Fin (y a)) (Fin (y b)), maxI = std_max (Fin (y a)) (Fin (y b))\<rparr>,
      zI = \<lparr>minI = std_min (Fin (z a)) (Fin (z b)), maxI = std_max (Fin (z a)) (Fin (z b))\<rparr>\<rparr>"

definition Aabb_union :: "Aabb \<Rightarrow> Aabb \<Rightarrow> Aabb" where
  "Aabb_union a b = \<lparr>xI = unite (xI a) (xI b), yI = unite (yI a) (yI b), zI = unite (zI a) (zI b)\<rparr>"

text \<open>
  The quotients \<^verbatim>\<open>(x.min-origin.x)/ray.x\<close> and \<^verbatim>\<open>(x.max-origin.x)/ray.x\<close> of
  \<^verbatim>\<open>Aabb::hit\<close>. A bound may be infinite (the empty box), the origin and the direction
  are real. \<open>ext_div\<close> is the quotient by a divisor that is not zero. For a direction
  component that is zero the quotient is what IEEE 754 gives for the divisor \<open>+0.0\<close>: the
  infinity with the sign of the numerator, and NaN, written \<open>None\<close>, for the numerator
  zero. The zero of the reals stands for \<open>+0.0\<close>; the divisor \<open>-0.0\<close>, which gives the
  opposite infinity, has no counterpart among the reals.
\<close>

fun ext_sub :: "ext \<Rightarrow> real \<Rightarrow> ext" where
  "ext_sub (Fin a) b = Fin (a - b)"
| "ext_sub PInf b = PInf"
| "ext_sub MInf b = MInf"

fun ext_div :: "ext \<Rightarrow> real \<Rightarrow> ext" where
  "ext_div (Fin a) d = Fin (a / d)"
| "ext_div PInf d = (if 0 < d then PInf else MInf)"
| "ext_div MInf d = (if 0 < d then MInf else PInf)"

fun div_zero :: "ext \<Rightarrow> ext option" where
  "div_zero (Fin a) = (if a = 0 then None else if 0 < a then Some PInf else Some MInf)"
| "div_zero PInf = Some PInf"
| "div_zero MInf = Some MInf"

definition quotient :: "ext \<Rightarrow> real \<Rightarrow> real \<Rightarrow> ext option" where
  "quotient e org d =
     (if d = 0 then div_zero (ext_sub e org) else Some (ext_div (ext_sub e org) d))"

text \<open>
  The temporary \<^verbatim>\<open>Interval\<close> that \<^verbatim>\<open>Aabb::hit\<close> builds from the two quotients of an axis;
  its bounds may be NaN.
\<close>

record NInterval =
  minN :: "ext option"
  maxN :: "ext option"

definition slab :: "Interval \<Rightarrow> real \<Rightarrow> real \<Rightarrow> NInterval" where
  "slab i org d = \<lparr>minN = quotient (minI i) org d, maxN = quotient (maxI i) org d\<rparr>"

text \<open>
  \<^verbatim>\<open>Interval::intersect\<close> with such an argument. A comparison with NaN is false, so
  \<^verbatim>\<open>std::max(min,a.min)\<close>, that is \<^verbatim>\<open>(min<a.min)?a.min:min\<close>, is \<^verbatim>\<open>min\<close> for a NaN
  \<^verbatim>\<open>a.min\<close>, and \<^verbatim>\<open>std::min(max,a.max)\<close>, that is \<^verbatim>\<open>(a.max<max)?a.max:max\<close>, is \<^verbatim>\<open>max\<close>
  for a NaN \<^verbatim>\<open>a.max\<close>: the receiver's bounds are never NaN.
\<close>

definition std_max_n :: "ext \<Rightarrow> ext option \<Rightarrow> ext" where
  "std_max_n a b = (case b of None \<Rightarrow> a | Some v \<Rightarrow> std_max a v)"

definition std_min_n :: "ext \<Rightarrow> ext option \<Rightarrow> ext" where
  "std_min_n a b = (case b of None \<Rightarrow> a | Some v \<Rightarrow> std_min a v)"

definition intersect_n :: "Interval \<Rightarrow> NInterval \<Rightarrow> Interval" where
  "intersect_n i a =
     (let i1 = i\<lparr>minI := std_max_n (minI i) (minN a)\<rparr>
      in i1\<lparr>maxI := std_min_n (maxI i1) (maxN a)\<rparr>)"

text \<open>
  \<^verbatim>\<open>Aabb::hit\<close> works on its own copy of the interval, which the three calls of
  \<^verbatim>\<open>intersect\<close> narrow one after the other; \<^verbatim>\<open>||\<close> stops at the first axis that leaves
  it empty.
\<close>

definition Aabb_hit :: "Aabb \<Rightarrow> Vector \<Rightarrow> Vector \<Rightarrow> Interval \<Rightarrow> bool" where
  "Aabb_hit box origin ray interval =
     (let i1 = intersect_n interval (slab (xI box) (x origin) (x ray))
      in if isEmpty i1 then False
         else
           let i2 = intersect_n i1 (slab (yI box) (y origin) (y ray))
           in if isEmpty i2 then False
              else
                let i3 = intersect_n i2 (slab (zI box) (z origin) (z ray))
                in \<not> isEmpty i3)"

definition Aabb_unite :: "Aabb \<Rightarrow> Aabb \<Rightarrow> Aabb" where
  "Aabb_unite b a =
     (let b1 = b\<lparr>xI := Interval_unite (xI b) (xI a)\<rparr>;
          b2 = b1\<lparr>yI := Interval_unite (yI b1) (yI a)\<rparr>
      in b2\<lparr>zI := Interval_unite (zI b2) (zI a)\<rparr>)"

definition Aabb_empty :: Aabb where
  "Aabb_empty = \<lparr>xI = Interval_empty, yI = Interval_empty, zI = Interval_empty\<rparr>"

section \<open>Random sampling\<close>

text \<open>
  The samplers take a square root whose argument can be negative, so their results can
  hold NaN. A value of type \<open>dbl\<close> is a real number or NaN; multiplication, addition and
  negation give NaN when an operand is NaN (also for \<open>NaN * 0\<close>), and a comparison with NaN
  is false. No infinity arises from the cosine, sine, square root, products and
  differences of the samplers.
\<close>

datatype dbl = NaN | Val real

fun dmul :: "dbl \<Rightarrow> dbl \<Rightarrow> dbl" where
  "dmul (Val a) (Val b) = Val (a * b)"
| "dmul _ _ = NaN"

fun dadd :: "dbl \<Rightarrow> dbl \<Rightarrow> dbl" where
  "dadd (Val a) (Val b) = Val (a + b)"
| "dadd _ _ = NaN"

fun dneg :: "dbl \<Rightarrow> dbl" where
  "dneg (Val a) = Val (- a)"
| "dneg NaN = NaN"

fun dless :: "dbl \<Rightarrow> dbl \<Rightarrow> bool" where
  "dless (Val a) (Val b) = (a < b)"
| "dless _ _ = False"

fun dle :: "dbl \<Rightarrow> dbl \<Rightarrow> bool" where
  "dle (Val a) (Val b) = (a \<le> b)"
| "dle _ _ = False"

definition dsqrt :: "dbl \<Rightarrow> dbl" where
  "dsqrt a = (case a of NaN \<Rightarrow> NaN | Val r \<Rightarrow> if r < 0 then NaN else Val (sqrt r))"

text \<open>
  A \<^verbatim>\<open>Vector\<close> whose components may be NaN, with the dot product \<^verbatim>\<open>a*b\<close>, the negation
  \<^verbatim>\<open>-v\<close>, \<^verbatim>\<open>normSq\<close> and \<^verbatim>\<open>norm\<close> on it.
\<close>

record DVector =
  dx :: dbl
  dy :: dbl
  dz :: dbl

definition of_Vector :: "Vector \<Rightarrow> DVector" where
  "of_Vector v = \<lparr>dx = Val (x v), dy = Val (y v), dz = Val (z v)\<rparr>"

definition ddot :: "DVector \<Rightarrow> DVector \<Rightarrow> dbl" where
  "ddot a b = dadd (dadd (dmul (dx a) (dx b)) (dmul (dy a) (dy b))) (dmul (dz a) (dz b))"

definition dvneg :: "DVector \<Rightarrow> DVector" where
  "dvneg v = \<lparr>dx = dneg (dx v), dy = dneg (dy v), dz = dneg (dz v)\<rparr>"

definition dnormSq :: "DVector \<Rightarrow> dbl" where
  "dnormSq v = dadd (dadd (dmul (dx v) (dx v)) (dmul (dy v) (dy v))) (dmul (dz v) (dz v))"

definition dnorm :: "DVector \<Rightarrow> dbl" where
  "dnorm v = dsqrt (dnormSq v)"

text \<open>
  A generator state is the sequence of values that
  \<^verbatim>\<open>std::uniform_real_distribution<> d(-1,1)\<close> will draw from it, each in \<open>[-1, 1)\<close>; a
  draw takes the head. \<^verbatim>\<open>PI\<close> is \<open>acos (-1)\<close>, that is \<open>pi\<close>.
\<close>

type_synonym generator = "real stream"

definition draw :: "generator \<Rightarrow> real \<times> generator" where
  "draw g = (shd g, stl g)"

definition in_range :: "generator \<Rightarrow> bool" where
  "in_range g = (\<forall>n. - 1 \<le> snth g n \<and> snth g n < 1)"

text \<open>
  The declarators of \<^verbatim>\<open>b\<close>, \<^verbatim>\<open>r\<close> and \<^verbatim>\<open>l\<close> are evaluated in that order, so \<^verbatim>\<open>b\<close> is the
  first draw and \<^verbatim>\<open>l\<close> uses the second.
\<close>

definition RandUnitVec3 :: "generator \<Rightarrow> DVector \<times> generator" where
  "RandUnitVec3 g =
     (let (b, g1) = draw g;
          r = dmul (dsqrt (Val (b * (b - 1)))) (Val 2);
          (u, g2) = draw g1;
          l = 2 * pi * u
      in (\<lparr>dx = dmul (Val (cos l)) r, dy = dmul (Val (sin l)) r, dz = Val (1 - 2 * b)\<rparr>, g2))"

definition RandVec3OnUnitHemisphere :: "generator \<Rightarrow> Vector \<Rightarrow> DVector \<times> generator" where
  "RandVec3OnUnitHemisphere g n =
     (let (b, g1) = draw g;
          r = dmul (dsqrt (Val (b * (b - 1)))) (Val 2);
          (u, g2) = draw g1;
          l = 2 * pi * u;
          v = \<lparr>dx = dmul (Val (cos l)) r, dy = dmul (Val (sin l)) r, dz = Val (1 - 2 * b)\<rparr>
      in (if dless (Val 0) (ddot v (of_Vector n)) then v else dvneg v, g2))"

section \<open>Hit records and the sphere\<close>

record Light =
  color :: Vector
  brightness :: real

text \<open>
  The two shared pointers of a record may be null. The normal is the result of
  \<^verbatim>\<open>unitize\<close>, which is no real vector when it divides by a zero norm.
\<close>

record HitRecord =
  point :: Vector
  normal :: "Vector option"
  light :: "Light option"
  dist_r :: real
  material :: "Material option"

record Sphere =
  center :: Vector
  radius :: real
  light_s :: "Light option"
  material_s :: "Material option"

text \<open>
  \<^verbatim>\<open>Sphere::hit\<close>. The source uses a constant \<^verbatim>\<open>EPSILON\<close> that it does not define; it is
  the first parameter here. The parameter \<^verbatim>\<open>interval\<close> is not read by the body.
\<close>

definition Sphere_hit :: "real \<Rightarrow> Sphere \<Rightarrow> Vector \<Rightarrow> Vector \<Rightarrow> Interval \<Rightarrow> HitRecord option" where
  "Sphere_hit EPSILON s origin ray interval =
     (let co = vsub origin (center s);
          b = dot ray co;
          d = b * b - normSq co + radius s * radius s
      in if d < 0 then None
         else
           let sd = sqrt d;
               t0 = - b - sd;
               t = (if t0 < EPSILON then t0 + sd * 2 else t0)
           in if t < EPSILON then None
              else
                let p = vadd origin (vscale ray t)
                in Some \<lparr>point = p, normal = unitize (vsub p (center s)), light = light_s s,
                         dist_r = t, material = material_s s\<rparr>)"

definition Sphere_aabb :: "Sphere \<Rightarrow> Aabb" where
  "Sphere_aabb s =
     \<lparr>xI = \<lparr>minI = Fin (x (center s) - radius s), maxI = Fin (x (center s) + radius s)\<rparr>,
      yI = \<lparr>minI = Fin (y (center s) - radius s), maxI = Fin (y (center s) + radius s)\<rparr>,
      zI = \<lparr>minI = Fin (z (center s) - radius s), maxI = Fin (z (center s) + radius s)\<rparr>\<rparr>"


section \<open>The box test of the specification\<close>

text \<open>
  The slab test in the words of the specification: the parametric entry and exit of an
  axis are \<open>(a - o) / d\<close> and \<open>(b - o) / d\<close>, swapped when \<open>d\<close> is negative; for \<open>d = 0\<close>
  the test is whether \<open>o\<close> lies in \<open>[a, b]\<close>. The box is hit when the caller's interval,
  intersected with the three, is not empty.
\<close>

definition entry_exit :: "Interval \<Rightarrow> real \<Rightarrow> real \<Rightarrow> Interval" where
  "entry_exit i org d =
     (if 0 < d then \<lparr>minI = ext_div (ext_sub (minI i) org) d, maxI = ext_div (ext_sub (maxI i) org) d\<rparr>
      else if d < 0 then \<lparr>minI = ext_div (ext_sub (maxI i) org) d, maxI = ext_div (ext_sub (minI i) org) d\<rparr>
      else if contain i (Fin org) then Interval_universe else Interval_empty)"

definition slab_test :: "Aabb \<Rightarrow> Vector \<Rightarrow> Vector \<Rightarrow> Interval \<Rightarrow> bool" where
  "slab_test box origin ray interval =
     (\<not> isEmpty (intersect (intersect (intersect interval
          (entry_exit (xI box) (x origin) (x ray)))
          (entry_exit (yI box) (y origin) (y ray)))
          (entry_exit (zI box) (z origin) (z ray))))"

section \<open>Bounding-volume hierarchy\<close>

text \<open>
  A \<^verbatim>\<open>Hittable\<close> is a sphere or a \<^verbatim>\<open>BvhTree\<close> with its fields \<^verbatim>\<open>left\<close>, \<^verbatim>\<open>right\<close> (null in a
  tree over one object) and \<^verbatim>\<open>aabb_\<close>. \<^verbatim>\<open>aabb()\<close> of a tree is the cached box. The
  constructor's cases for one and for two objects are those of the source; its case for
  three and more is unfinished there.
\<close>

datatype Hittable = HSphere Sphere | HBvh Hittable "Hittable option" Aabb

fun Hittable_aabb :: "Hittable \<Rightarrow> Aabb" where
  "Hittable_aabb (HSphere s) = Sphere_aabb s"
| "Hittable_aabb (HBvh l r box) = box"

definition BvhTree1 :: "Hittable \<Rightarrow> Hittable" where
  "BvhTree1 h = HBvh h None (Hittable_aabb h)"

definition BvhTree2 :: "Hittable \<Rightarrow> Hittable \<Rightarrow> Hittable" where
  "BvhTree2 h1 h2 = HBvh h1 (Some h2) (Aabb_union (Hittable_aabb h1) (Hittable_aabb h2))"

text \<open>The primitives of a hierarchy.\<close>

fun primitives :: "Hittable \<Rightarrow> Sphere list" where
  "primitives (HSphere s) = [s]"
| "primitives (HBvh l None box) = primitives l"
| "primitives (HBvh l (Some r) box) = primitives l @ primitives r"

text \<open>
  \<^verbatim>\<open>BvhTree::hit\<close>. Its body in the source holds no statement, only the note that it is
  to be synchronised with another branch: control reaches the end of a function that is
  to return a pointer to a hit record, and the call yields no value, which C++ leaves
  undefined. The result is \<open>Some None\<close> for a null pointer (no hit), \<open>Some (Some r)\<close> for
  a record and \<open>None\<close> when the call returns no value; the body gives the last for every
  tree, ray and interval.
\<close>

definition BvhTree_hit :: "Hittable \<Rightarrow> Vector \<Rightarrow> Vector \<Rightarrow> Interval \<Rightarrow> HitRecord option option" where
  "BvhTree_hit tree origin ray interval = None"

section \<open>A scene\<close>

text \<open>
  Two unit spheres on the line through the origin along \<open>(2/3, 1/3, 2/3)\<close>, at distances
  6 and 12, and the tree the constructor builds over them.
\<close>

definition sphere_near :: Sphere where
  "sphere_near = \<lparr>center = \<lparr>x = 4, y = 2, z = 4\<rparr>, radius = 1, light_s = None, material_s = Some Mirror\<rparr>"

definition sphere_far :: Sphere where
  "sphere_far = \<lparr>center = \<lparr>x = 8, y = 4, z = 8\<rparr>, radius = 1, light_s = None, material_s = Some Mirror\<rparr>"

definition two_spheres :: Hittable where
  "two_spheres = BvhTree2 (HSphere sphere_near) (HSphere sphere_far)"

definition ray_unit :: Vector where
  "ray_unit = \<lparr>x = 2 / 3, y = 1 / 3, z = 2 / 3\<rparr>"

section \<open>Order on the bounds\<close>

lemma less_ext_simps [simp]:
  "Fin a < Fin b = (a < b)"
  "MInf < Fin a" "MInf < PInf" "Fin a < PInf"
  "\<not> e < MInf" "\<not> PInf < e"
  by (cases e; auto simp: less_ext_def)+


section \<open>Interval and box algebra\<close>

lemma std_max_eq: "std_max a b = max a b"
  by (auto simp: std_max_def max_def)

lemma std_min_eq: "std_min a b = min a b"
  by (auto simp: std_min_def min_def)

lemma intersect_eq:
  "intersect a b = \<lparr>minI = max (minI a) (minI b), maxI = min (maxI a) (maxI b)\<rparr>"
  by (simp add: intersect_def std_max_eq std_min_eq)

lemma Interval_unite_eq:
  "Interval_unite a b = \<lparr>minI = min (minI a) (minI b), maxI = max (maxI a) (maxI b)\<rparr>"
  by (simp add: Interval_unite_def std_max_eq std_min_eq)

lemma ext_top: "(e::ext) \<le> PInf"
  by (cases e) simp_all

lemma ext_bot: "MInf \<le> (e::ext)"
  by (cases e) simp_all

text \<open>
  Claim C7. \<^verbatim>\<open>Interval::intersect\<close> and \<^verbatim>\<open>Interval::unite\<close>, read as binary operations
  on pairs of bounds, are commutative and associative; the free \<^verbatim>\<open>unite\<close> is the same
  operation as the member; intersecting any interval with \<^verbatim>\<open>Interval::empty\<close> gives
  \<^verbatim>\<open>Interval::empty\<close>, which is empty; uniting any interval with it gives the interval
  back; and \<^verbatim>\<open>Aabb::unite\<close> with \<^verbatim>\<open>Aabb::empty\<close> gives the box back. The bounds range
  over the reals and the two infinities.
\<close>

theorem Interval_algebra:
  "intersect a b = intersect b a
   \<and> intersect (intersect a b) c = intersect a (intersect b c)
   \<and> Interval_unite a b = Interval_unite b a
   \<and> Interval_unite (Interval_unite a b) c = Interval_unite a (Interval_unite b c)
   \<and> unite a b = Interval_unite a b
   \<and> intersect a Interval_empty = Interval_empty
   \<and> isEmpty (intersect a Interval_empty)
   \<and> Interval_unite a Interval_empty = a
   \<and> Aabb_unite box Aabb_empty = box"
  by (simp add: intersect_eq Interval_unite_eq unite_def std_max_eq std_min_eq Interval_empty_def
      Aabb_unite_def Aabb_empty_def isEmpty_def max.commute min.commute max.assoc min.assoc
      max.left_commute min.left_commute
      max_absorb2 min_absorb2 max_absorb1 min_absorb1 ext_top ext_bot)

section \<open>Mirror\<close>



section \<open>Rotation\<close>

text \<open>
  One component of a rotation by \<open>a\<close> followed by a rotation by \<open>- a\<close>, as a polynomial
  identity in the components, the cosine \<open>cs\<close> and the sine \<open>sn\<close>.
\<close>

lemma rot_poly:
  fixes a b c p q r cs sn :: real
  assumes k: "p * p + q * q + r * r = 1" and t: "cs * cs + sn * sn = 1"
  shows "(a * cs + p * (1 - cs) * (a * p + b * q + c * r) + (b * r - c * q) * sn) * cs +
         p * (1 - cs) *
         ((a * cs + p * (1 - cs) * (a * p + b * q + c * r) + (b * r - c * q) * sn) * p +
          (b * cs + q * (1 - cs) * (a * p + b * q + c * r) + (c * p - a * r) * sn) * q +
          (c * cs + r * (1 - cs) * (a * p + b * q + c * r) + (a * q - b * p) * sn) * r) -
         ((b * cs + q * (1 - cs) * (a * p + b * q + c * r) + (c * p - a * r) * sn) * r -
          (c * cs + r * (1 - cs) * (a * p + b * q + c * r) + (a * q - b * p) * sn) * q) * sn = a"
  using k t by algebra

text \<open>
  Claim C9. For every vector \<open>v\<close>, every axis of unit length and every angle \<open>a\<close>,
  \<^verbatim>\<open>rotate(v, axis, a)\<close> followed by \<^verbatim>\<open>rotate(., axis, -a)\<close> gives \<open>v\<close> back, exactly,
  over the reals.
\<close>

theorem rotate_round_trip:
  "normSq axis = 1 \<Longrightarrow> rotate_v (rotate_v v axis a) axis (- a) = v"
proof -
  assume n: "normSq axis = 1"
  have t: "cos a * cos a + sin a * sin a = 1"
    using sin_cos_squared_add2 [of a] by (simp add: power2_eq_square)
  have k1: "x axis * x axis + y axis * y axis + z axis * z axis = 1"
    using n by (simp add: normSq_def)
  have k2: "y axis * y axis + z axis * z axis + x axis * x axis = 1"
    using k1 by simp
  have k3: "z axis * z axis + x axis * x axis + y axis * y axis = 1"
    using k1 by simp
  have "x (rotate_v (rotate_v v axis a) axis (- a)) = x v"
    using rot_poly [OF k1 t, of "x v" "y v" "z v"]
    by (simp add: rotate_v_def dot_def vadd_def vscale_def cross_def Let_def)
  moreover have "y (rotate_v (rotate_v v axis a) axis (- a)) = y v"
    using rot_poly [OF k2 t, of "y v" "z v" "x v"]
    by (simp add: rotate_v_def dot_def vadd_def vscale_def cross_def Let_def add.commute add.left_commute)
  moreover have "z (rotate_v (rotate_v v axis a) axis (- a)) = z v"
    using rot_poly [OF k3 t, of "z v" "x v" "y v"]
    by (simp add: rotate_v_def dot_def vadd_def vscale_def cross_def Let_def add.commute add.left_commute)
  ultimately show ?thesis
    by (cases v, cases "rotate_v (rotate_v v axis a) axis (- a)") simp
qed

theorem rotate_round_trip_witness:
  "normSq \<lparr>x = 0, y = 0, z = 1\<rparr> = 1
   \<and> rotate_v (rotate_v \<lparr>x = 1, y = 2, z = 3\<rparr> \<lparr>x = 0, y = 0, z = 1\<rparr> (pi / 2)) \<lparr>x = 0, y = 0, z = 1\<rparr> (- (pi / 2))
       = \<lparr>x = 1, y = 2, z = 3\<rparr>"
proof -
  have n: "normSq \<lparr>x = 0, y = 0, z = 1\<rparr> = 1"
    by (simp add: normSq_def)
  show ?thesis
    using n rotate_round_trip [OF n, of "\<lparr>x = 1, y = 2, z = 3\<rparr>" "pi / 2"] by simp
qed


section \<open>The rotating members\<close>

lemma Vector_rotate_this:
  "(Vector_rotate s this axis a) this = rotate_v (s this) (s axis) a"
  by (simp add: Vector_rotate_def rotate_v_def Let_def)

lemma Vector_rotate_other:
  "p \<noteq> this \<Longrightarrow> (Vector_rotate s this axis a) p = s p"
  by (simp add: Vector_rotate_def Let_def)

lemma minus_assign_this:
  "a \<noteq> b \<Longrightarrow> (minus_assign s a b) a = vsub (s a) (s b)"
  by (simp add: minus_assign_def vsub_def Let_def)

lemma minus_assign_other:
  "p \<noteq> a \<Longrightarrow> (minus_assign s a b) p = s p"
  by (simp add: minus_assign_def Let_def)

text \<open>
  When neither \<^verbatim>\<open>origin\<close> nor \<^verbatim>\<open>axis\<close> is the receiver, the three-argument member
  leaves in the receiver what the free function returns.
\<close>

lemma Vector_rotate_about_this:
  "this \<noteq> origin \<Longrightarrow> this \<noteq> axis \<Longrightarrow>
   (Vector_rotate_about s this origin axis a) this = rotate_about (s this) (s origin) (s axis) a"
  by (simp add: Vector_rotate_about_def rotate_about_def Let_def Vector_rotate_this
      Vector_rotate_other minus_assign_this minus_assign_other)

text \<open>
  Claim C10 says that \<^verbatim>\<open>v.rotate(origin, axis, a)\<close> leaves in \<open>v\<close> the value of the
  free \<^verbatim>\<open>rotate(v, origin, axis, a)\<close> for every \<open>v\<close>, origin, axis and angle. The call
  \<^verbatim>\<open>v.rotate(v, axis, 0)\<close> with \<open>v = (1, 0, 0)\<close> and axis \<open>(0, 0, 1)\<close>, where the origin
  is the receiver, leaves \<open>(0, 0, 0)\<close> in \<open>v\<close>: \<^verbatim>\<open>*this-=origin\<close> has set the origin to
  zero before it is added back. The free function returns \<open>(1, 0, 0)\<close>.
\<close>

theorem Vector_rotate_about_aliased:
  "(Vector_rotate_about ((\<lambda>p. \<lparr>x = 0, y = 0, z = 1\<rparr>)(0 := \<lparr>x = 1, y = 0, z = 0\<rparr>)) 0 0 1 0) 0
     = \<lparr>x = 0, y = 0, z = 0\<rparr>
   \<and> rotate_about \<lparr>x = 1, y = 0, z = 0\<rparr> \<lparr>x = 1, y = 0, z = 0\<rparr> \<lparr>x = 0, y = 0, z = 1\<rparr> 0
     = \<lparr>x = 1, y = 0, z = 0\<rparr>"
  by (simp add: Vector_rotate_about_def Vector_rotate_def minus_assign_def rotate_about_def
      rotate_v_def vadd_def vsub_def vscale_def dot_def cross_def Let_def)

section \<open>Sampling\<close>

text \<open>The sample, by the sign of the square root's argument.\<close>

lemma RandUnitVec3_value:
  "fst (RandUnitVec3 g) =
     (if shd g * (shd g - 1) < 0 then \<lparr>dx = NaN, dy = NaN, dz = Val (1 - 2 * shd g)\<rparr>
      else \<lparr>dx = Val (cos (2 * pi * shd (stl g)) * (sqrt (shd g * (shd g - 1)) * 2)),
            dy = Val (sin (2 * pi * shd (stl g)) * (sqrt (shd g * (shd g - 1)) * 2)),
            dz = Val (1 - 2 * shd g)\<rparr>)"
  by (simp add: RandUnitVec3_def draw_def dsqrt_def Let_def)

text \<open>
  The squared norm of a sample with first draw \<open>b\<close> is NaN when \<open>b (b - 1)\<close> is negative
  and \<open>8 b\<^sup>2 - 8 b + 1\<close> otherwise.
\<close>

lemma RandUnitVec3_normSq:
  "dnormSq (fst (RandUnitVec3 g)) =
     (if shd g * (shd g - 1) < 0 then NaN else Val (8 * shd g * shd g - 8 * shd g + 1))"
proof (cases "shd g * (shd g - 1) < 0")
  case True
  then show ?thesis by (simp add: RandUnitVec3_value dnormSq_def)
next
  case False
  define b where "b = shd g"
  define r where "r = sqrt (b * (b - 1))"
  define c where "c = cos (2 * pi * shd (stl g))"
  define s where "s = sin (2 * pi * shd (stl g))"
  have nn: "0 \<le> b * (b - 1)"
    using False by (simp add: b_def)
  have sq: "r * r = b * (b - 1)"
    using nn by (simp add: r_def)
  have cs: "c * c + s * s = 1"
    using sin_cos_squared_add2 [of "2 * pi * shd (stl g)"] by (simp add: power2_eq_square c_def s_def)
  have "c * (r * 2) * (c * (r * 2)) + s * (r * 2) * (s * (r * 2)) + (1 - 2 * b) * (1 - 2 * b)
        = (c * c + s * s) * (4 * (r * r)) + (1 - 2 * b) * (1 - 2 * b)"
    by (simp add: algebra_simps)
  also have "\<dots> = 4 * (b * (b - 1)) + (1 - 2 * b) * (1 - 2 * b)"
    by (simp only: cs sq)
  also have "\<dots> = 8 * b * b - 8 * b + 1"
    by (simp add: algebra_simps)
  finally have "c * (r * 2) * (c * (r * 2)) + s * (r * 2) * (s * (r * 2)) + (1 - 2 * b) * (1 - 2 * b)
        = 8 * b * b - 8 * b + 1" .
  then show ?thesis
    using False by (simp add: RandUnitVec3_value dnormSq_def b_def r_def c_def s_def)
qed

text \<open>For draws in \<open>[-1, 1)\<close> the sample has norm 1 only when the first draw is 0.\<close>

lemma RandUnitVec3_unit_iff:
  assumes "in_range g"
  shows "dnorm (fst (RandUnitVec3 g)) = Val 1 \<longleftrightarrow> shd g = 0"
proof -
  have lt: "shd g < 1"
    using assms snth.simps(1) [of g] unfolding in_range_def by metis
  show ?thesis
  proof (cases "shd g * (shd g - 1) < 0")
    case True
    then have "shd g \<noteq> 0" by auto
    then show ?thesis using True by (simp add: dnorm_def RandUnitVec3_normSq dsqrt_def)
  next
    case False
    have pos: "0 \<le> 8 * shd g * shd g - 8 * shd g + 1"
      using False by (simp add: algebra_simps)
    have "sqrt (8 * shd g * shd g - 8 * shd g + 1) = 1 \<longleftrightarrow> 8 * shd g * shd g - 8 * shd g + 1 = 1"
      using real_sqrt_eq_1_iff by blast
    also have "\<dots> \<longleftrightarrow> shd g * (shd g - 1) = 0"
      by (auto simp: algebra_simps)
    also have "\<dots> \<longleftrightarrow> shd g = 0"
      using lt by auto
    finally show ?thesis
      using False pos by (simp add: dnorm_def RandUnitVec3_normSq dsqrt_def not_less)
  qed
qed

text \<open>
  Claim C2 says that \<^verbatim>\<open>RandUnitVec3\<close> returns a vector of norm 1, never NaN, for every
  generator state. With the draws \<open>- 1\<close> and \<open>0\<close> the code returns
  \<open>(2 * sqrt 2, 0, 3)\<close>, of squared norm 17; with a first draw of \<open>1 / 2\<close> the argument
  \<open>b * (b - 1)\<close> of the square root is \<open>- 1 / 4\<close> and the result is \<open>(NaN, NaN, 0)\<close>, whose
  norm is NaN.
\<close>

theorem RandUnitVec3_not_unit:
  "fst (RandUnitVec3 (- 1 ## sconst 0)) = \<lparr>dx = Val (sqrt 2 * 2), dy = Val 0, dz = Val 3\<rparr>
   \<and> dnormSq \<lparr>dx = Val (sqrt 2 * 2), dy = Val 0, dz = Val 3\<rparr> = Val 17
   \<and> fst (RandUnitVec3 (1 / 2 ## sconst 0)) = \<lparr>dx = NaN, dy = NaN, dz = Val 0\<rparr>
   \<and> dnorm \<lparr>dx = NaN, dy = NaN, dz = Val 0\<rparr> = NaN"
  by (simp add: RandUnitVec3_value dnormSq_def dnorm_def dsqrt_def)

text \<open>
  The hemisphere sampler returns the sample of \<^verbatim>\<open>RandUnitVec3\<close>, negated exactly when
  its dot product with \<open>n\<close> is not positive. The dot product of the result with \<open>n\<close> is at
  least 0 exactly when the argument of the square root is not negative.
\<close>

lemma Hemisphere_value:
  "fst (RandVec3OnUnitHemisphere g n) =
     (let v = fst (RandUnitVec3 g)
      in if dless (Val 0) (ddot v (of_Vector n)) then v else dvneg v)"
  by (simp add: RandVec3OnUnitHemisphere_def RandUnitVec3_def draw_def Let_def)

lemma ddot_dvneg: "ddot (dvneg v) w = dneg (ddot v w)"
  by (cases "dx v"; cases "dy v"; cases "dz v"; cases "dx w"; cases "dy w"; cases "dz w")
    (simp_all add: ddot_def dvneg_def)

lemma Hemisphere_dot:
  "dle (Val 0) (ddot (fst (RandVec3OnUnitHemisphere g n)) (of_Vector n))
     \<longleftrightarrow> \<not> shd g * (shd g - 1) < 0"
proof (cases "shd g * (shd g - 1) < 0")
  case True
  then have "ddot (fst (RandUnitVec3 g)) (of_Vector n) = NaN"
    by (simp add: RandUnitVec3_value ddot_def of_Vector_def)
  then show ?thesis using True
    by (simp add: Hemisphere_value Let_def ddot_dvneg)
next
  case False
  then obtain a where a: "ddot (fst (RandUnitVec3 g)) (of_Vector n) = Val a"
    by (simp add: RandUnitVec3_value ddot_def of_Vector_def)
  show ?thesis using False
    by (simp add: Hemisphere_value Let_def ddot_dvneg a)
qed

text \<open>
  Claim C6 says that the vector \<open>v\<close> returned by \<^verbatim>\<open>RandVec3OnUnitHemisphere\<close> satisfies
  \<open>v \<cdot> n \<ge> 0\<close> for every normal and generator state. With a first draw of \<open>1 / 2\<close> and
  the normal \<open>(0, 0, 1)\<close> the radius is twice the square root of \<open>- 1 / 4\<close>: the vector
  returned is \<open>(NaN, NaN, 0)\<close>, its dot product with the normal is NaN, and the
  comparison of 0 with it is false.
\<close>

theorem Hemisphere_nan:
  "fst (RandVec3OnUnitHemisphere (1 / 2 ## sconst 0) \<lparr>x = 0, y = 0, z = 1\<rparr>)
     = \<lparr>dx = NaN, dy = NaN, dz = Val 0\<rparr>
   \<and> ddot \<lparr>dx = NaN, dy = NaN, dz = Val 0\<rparr> (of_Vector \<lparr>x = 0, y = 0, z = 1\<rparr>) = NaN
   \<and> \<not> dle (Val 0) NaN"
  by (simp add: Hemisphere_value RandUnitVec3_value ddot_def dvneg_def of_Vector_def Let_def)

section \<open>Sphere intersection\<close>



text \<open>
  What a returned record holds: the point is \<open>origin + dist_r * ray\<close>, the distance is at
  least \<^verbatim>\<open>EPSILON\<close>, the normal is the unitized \<open>point - center\<close>, and light and
  material are the sphere's.
\<close>

lemma Sphere_hit_record:
  "Sphere_hit eps s origin ray interval = Some r \<Longrightarrow>
   point r = vadd origin (vscale ray (dist_r r)) \<and> eps \<le> dist_r r
   \<and> normal r = unitize (vsub (point r) (center s))
   \<and> light r = light_s s \<and> material r = material_s s"
  by (auto simp: Sphere_hit_def Let_def split: if_splits)

lemma unitize_norm:
  assumes "v \<noteq> \<lparr>x = 0, y = 0, z = 0\<rparr>"
  shows "\<exists>n. unitize v = Some n \<and> norm_v n = 1"
proof -
  have "normSq v \<noteq> 0"
  proof
    assume "normSq v = 0"
    then have "x v * x v + y v * y v + z v * z v = 0" by (simp add: normSq_def)
    then have "x v = 0 \<and> y v = 0 \<and> z v = 0"
      by (metis add_nonneg_eq_0_iff zero_le_square mult_eq_0_iff add_nonneg_nonneg)
    then show False using assms by (cases v) simp
  qed
  moreover have "0 \<le> normSq v" by (simp add: normSq_def)
  ultimately have pos: "0 < normSq v" by simp
  then have n0: "norm_v v \<noteq> 0" by (simp add: norm_v_def)
  have nn: "norm_v v * norm_v v = normSq v"
    using pos by (simp add: norm_v_def)
  have "normSq \<lparr>x = x v / norm_v v, y = y v / norm_v v, z = z v / norm_v v\<rparr>
        = normSq v / (norm_v v * norm_v v)"
    by (simp add: normSq_def add_divide_distrib)
  also have "\<dots> = 1" using nn pos by simp
  finally show ?thesis using n0 by (simp add: unitize_def vdiv_def norm_v_def)
qed

text \<open>The result of \<^verbatim>\<open>Sphere::hit\<close> is the same for every interval.\<close>

lemma Sphere_hit_interval_unused:
  "Sphere_hit eps s origin ray interval = Sphere_hit eps s origin ray interval'"
  by (simp add: Sphere_hit_def)

text \<open>
  Claim C1 says that a record returned by \<^verbatim>\<open>Sphere::hit\<close> has its \<open>t\<close> inside the given
  interval, its point at \<open>origin + t * direction\<close> and a normal of unit length. For the
  sphere at \<open>(0, 0, -5)\<close> of radius 1, the ray from the origin along \<open>(0, 0, -1)\<close> and
  the interval \<open>[5, 10]\<close>, the code returns the record at \<open>t = 4\<close>, which is outside the
  interval: the body never reads it.
\<close>

theorem Sphere_hit_ignores_interval:
  "Sphere_hit (1 / 10000)
     \<lparr>center = \<lparr>x = 0, y = 0, z = - 5\<rparr>, radius = 1, light_s = None, material_s = Some Mirror\<rparr>
     \<lparr>x = 0, y = 0, z = 0\<rparr> \<lparr>x = 0, y = 0, z = - 1\<rparr> \<lparr>minI = Fin 5, maxI = Fin 10\<rparr>
   = Some \<lparr>point = \<lparr>x = 0, y = 0, z = - 4\<rparr>, normal = Some \<lparr>x = 0, y = 0, z = 1\<rparr>,
           light = None, dist_r = 4, material = Some Mirror\<rparr>
   \<and> \<not> contain \<lparr>minI = Fin 5, maxI = Fin 10\<rparr> (Fin 4)"
  by (simp add: Sphere_hit_def Let_def vsub_def vadd_def vscale_def dot_def normSq_def
      unitize_def vdiv_def norm_v_def contain_def)

section \<open>Box test\<close>

lemma isEmpty_intersect: "isEmpty i \<Longrightarrow> isEmpty (intersect i a)"
  by (auto simp: isEmpty_def intersect_def std_max_def std_min_def Let_def)

text \<open>
  For a direction component that is not zero the quotients are not NaN, and
  \<^verbatim>\<open>intersect\<close> with the temporary is \<^verbatim>\<open>intersect\<close> with the interval of the two quotients.
\<close>

lemma intersect_n_slab:
  "d \<noteq> 0 \<Longrightarrow>
   intersect_n i (slab a org d) =
     intersect i \<lparr>minI = ext_div (ext_sub (minI a) org) d, maxI = ext_div (ext_sub (maxI a) org) d\<rparr>"
  by (simp add: intersect_n_def intersect_def slab_def quotient_def std_max_n_def std_min_n_def)

text \<open>
  For a direction whose three components are positive, \<^verbatim>\<open>Aabb::hit\<close> is the slab test
  of the specification.
\<close>

lemma Aabb_hit_forward:
  assumes "0 < x ray" "0 < y ray" "0 < z ray"
  shows "Aabb_hit box origin ray interval = slab_test box origin ray interval"
  using assms
  by (auto simp: Aabb_hit_def intersect_n_slab slab_test_def entry_exit_def Let_def
      dest: isEmpty_intersect)

text \<open>
  For a direction whose first component is negative, \<^verbatim>\<open>Aabb::hit\<close> is false for every
  box of positive extent on the first axis, whatever the origin and the interval.
\<close>

lemma ext_quot_strict_anti:
  "d < 0 \<Longrightarrow> a < b \<Longrightarrow> ext_div (ext_sub b org) d < ext_div (ext_sub a org) d"
  by (cases a; cases b) (simp_all add: divide_strict_right_mono_neg)

lemma Aabb_hit_negative:
  assumes d: "x ray < 0" and e: "minI (xI box) < maxI (xI box)"
  shows "\<not> Aabb_hit box origin ray interval"
proof -
  let ?lo = "ext_div (ext_sub (minI (xI box)) (x origin)) (x ray)"
  let ?hi = "ext_div (ext_sub (maxI (xI box)) (x origin)) (x ray)"
  have "?hi < ?lo" using d e by (rule ext_quot_strict_anti)
  moreover have "maxI (intersect interval \<lparr>minI = ?lo, maxI = ?hi\<rparr>) \<le> ?hi"
    "?lo \<le> minI (intersect interval \<lparr>minI = ?lo, maxI = ?hi\<rparr>)"
    by (simp_all add: intersect_eq)
  ultimately have "isEmpty (intersect interval \<lparr>minI = ?lo, maxI = ?hi\<rparr>)"
    unfolding isEmpty_def by (meson le_less_trans less_le_trans)
  then show ?thesis
    using d by (simp add: Aabb_hit_def intersect_n_slab Let_def)
qed

text \<open>
  A ray along the first axis: the box with corners \<open>(1, 2, 3)\<close> and \<open>(-1, 0, -3)\<close>, the
  ray from the origin along \<open>(1, 0, 0)\<close> and the interval from 0 to infinity. The
  quotients of the second axis are NaN and \<open>+\<infinity>\<close>, those of the third \<open>-\<infinity>\<close> and \<open>+\<infinity>\<close>;
  the box is hit.
\<close>

lemma Aabb_hit_along_axis:
  "Aabb_hit (Aabb_corners \<lparr>x = 1, y = 2, z = 3\<rparr> \<lparr>x = - 1, y = 0, z = - 3\<rparr>)
     \<lparr>x = 0, y = 0, z = 0\<rparr> \<lparr>x = 1, y = 0, z = 0\<rparr> \<lparr>minI = Fin 0, maxI = PInf\<rparr>"
  by (simp add: Aabb_hit_def slab_def quotient_def intersect_n_def std_max_n_def std_min_n_def
      Aabb_corners_def Let_def isEmpty_def std_max_def std_min_def)

text \<open>
  Claim C3 says that \<^verbatim>\<open>Aabb::hit\<close> is true exactly when the caller's interval,
  intersected with the three entry/exit intervals, is not empty, entry and exit being
  swapped for a negative direction component. For the box \<open>[-1, 1]\<^sup>3\<close>, the ray from
  \<open>(2, -2, -2)\<close> along \<open>(-1, 1, 1)\<close> and the interval \<open>[0, 10]\<close> the ray is inside the box
  for \<open>t\<close> from 1 to 3 and the slab test holds, but the code returns false: it forms
  \<open>[3, 1]\<close> for the first axis, without the swap.
\<close>

theorem Aabb_hit_backward_ray:
  "Aabb_hit (Aabb_corners \<lparr>x = - 1, y = - 1, z = - 1\<rparr> \<lparr>x = 1, y = 1, z = 1\<rparr>)
     \<lparr>x = 2, y = - 2, z = - 2\<rparr> \<lparr>x = - 1, y = 1, z = 1\<rparr> \<lparr>minI = Fin 0, maxI = Fin 10\<rparr> = False
   \<and> slab_test (Aabb_corners \<lparr>x = - 1, y = - 1, z = - 1\<rparr> \<lparr>x = 1, y = 1, z = 1\<rparr>)
     \<lparr>x = 2, y = - 2, z = - 2\<rparr> \<lparr>x = - 1, y = 1, z = 1\<rparr> \<lparr>minI = Fin 0, maxI = Fin 10\<rparr>"
  by (simp add: Aabb_hit_def slab_def quotient_def intersect_n_def std_max_n_def std_min_n_def
      slab_test_def entry_exit_def Aabb_corners_def Let_def
      isEmpty_def intersect_def std_max_def std_min_def)

section \<open>Hierarchy query\<close>

text \<open>
  Claim C4 says that \<^verbatim>\<open>BvhTree::hit\<close> returns the nearest hit among all primitives of
  the hierarchy. For the tree over the two spheres of the scene, the ray from the origin
  along \<open>(2/3, 1/3, 2/3)\<close> and the interval from \<open>1/10000\<close> to 100, the near sphere is a
  primitive of the tree and reports a hit at distance 5, inside the interval, and the
  far sphere one at distance 11; the tree's query returns no value, so no record.
\<close>

theorem BvhTree_hit_returns_nothing:
  "primitives two_spheres = [sphere_near, sphere_far]
   \<and> map_option dist_r
        (Sphere_hit (1 / 10000) sphere_near \<lparr>x = 0, y = 0, z = 0\<rparr> ray_unit
           \<lparr>minI = Fin (1 / 10000), maxI = Fin 100\<rparr>) = Some 5
   \<and> map_option dist_r
        (Sphere_hit (1 / 10000) sphere_far \<lparr>x = 0, y = 0, z = 0\<rparr> ray_unit
           \<lparr>minI = Fin (1 / 10000), maxI = Fin 100\<rparr>) = Some 11
   \<and> contain \<lparr>minI = Fin (1 / 10000), maxI = Fin 100\<rparr> (Fin 5)
   \<and> BvhTree_hit two_spheres \<lparr>x = 0, y = 0, z = 0\<rparr> ray_unit
        \<lparr>minI = Fin (1 / 10000), maxI = Fin 100\<rparr> = None"
  by (simp add: two_spheres_def BvhTree2_def sphere_near_def sphere_far_def ray_unit_def
      BvhTree_hit_def Sphere_hit_def Let_def vsub_def vadd_def vscale_def dot_def normSq_def
      contain_def)

end
